theory Spec2Isabelle
  imports Complex_Main
begin

section \<open>Python values used by the services\<close>

text \<open>
  A Python \<^verbatim>\<open>float\<close> is modelled as a \<open>real\<close> (no NaN, no infinities, no rounding
  of literals), a Python \<^verbatim>\<open>int\<close> as an \<open>int\<close>, a \<^verbatim>\<open>str\<close> as a \<open>string\<close> (the strings
  of the services are ASCII).

  A naive \<^verbatim>\<open>datetime\<close> is the number of microseconds since the epoch. A
  \<^verbatim>\<open>timedelta\<close> is stored by Python in normalised form: \<open>days\<close> (any sign),
  \<open>0 \<le> seconds < 86400\<close> and \<open>0 \<le> microseconds < 1000000\<close>; the attribute
  \<^verbatim>\<open>.seconds\<close> reads the middle component, \<^verbatim>\<open>.total_seconds()\<close> the whole duration.
\<close>

type_synonym datetime = int

record timedelta =
  days :: int
  seconds :: int
  microseconds :: int

definition timedelta_of_microseconds :: "int \<Rightarrow> timedelta" where
  "timedelta_of_microseconds us =
     \<lparr>days = us div 86400000000,
      seconds = (us mod 86400000000) div 1000000,
      microseconds = us mod 1000000\<rparr>"

definition datetime_sub :: "datetime \<Rightarrow> datetime \<Rightarrow> timedelta" where
  \<comment> \<open>\<^verbatim>\<open>a - b\<close> on two datetimes\<close>
  "datetime_sub a b = timedelta_of_microseconds (a - b)"

definition total_seconds :: "timedelta \<Rightarrow> real" where
  "total_seconds d =
     of_int (days d) * 86400 + of_int (seconds d) + of_int (microseconds d) / 1000000"

definition hours :: "int \<Rightarrow> int" where
  \<comment> \<open>\<^verbatim>\<open>timedelta(hours=h)\<close>, in microseconds\<close>
  "hours h = h * 3600000000"

definition minutes :: "int \<Rightarrow> int" where
  "minutes m = m * 60000000"

text \<open>
  \<^verbatim>\<open>str(n)\<close> for an integer, \<^verbatim>\<open>s.capitalize()\<close> on ASCII strings and the format
  \<^verbatim>\<open>{x:.1f}\<close> (one decimal, the tie rounded to even).
\<close>

fun str_nat :: "nat \<Rightarrow> string" where
  "str_nat n =
     (if n < 10 then [''0123456789'' ! n]
      else str_nat (n div 10) @ [''0123456789'' ! (n mod 10)])"

declare str_nat.simps [simp del]

definition str_int :: "int \<Rightarrow> string" where
  "str_int i = (if i < 0 then ''-'' @ str_nat (nat (- i)) else str_nat (nat i))"

definition ascii_lowercase :: string where
  "ascii_lowercase = ''abcdefghijklmnopqrstuvwxyz''"

definition ascii_uppercase :: string where
  "ascii_uppercase = ''ABCDEFGHIJKLMNOPQRSTUVWXYZ''"

definition upper_char :: "char \<Rightarrow> char" where
  "upper_char c =
     (case map_of (zip ascii_lowercase ascii_uppercase) c of Some u \<Rightarrow> u | None \<Rightarrow> c)"

definition lower_char :: "char \<Rightarrow> char" where
  "lower_char c =
     (case map_of (zip ascii_uppercase ascii_lowercase) c of Some l \<Rightarrow> l | None \<Rightarrow> c)"

fun capitalize :: "string \<Rightarrow> string" where
  "capitalize [] = []"
| "capitalize (c # cs) = upper_char c # map lower_char cs"

definition round_half_even :: "real \<Rightarrow> int" where
  "round_half_even x =
     (let f = \<lfloor>x\<rfloor>; d = x - of_int f in
      if d < 1 / 2 then f
      else if 1 / 2 < d then f + 1
      else if even f then f else f + 1)"

definition format_1f :: "real \<Rightarrow> string" where
  "format_1f x =
     (let n = round_half_even (\<bar>x\<bar> * 10) in
      (if x < 0 then ''-'' else '''') @ str_nat (nat (n div 10)) @ ''.'' @ str_nat (nat (n mod 10)))"

fun join :: "string \<Rightarrow> string list \<Rightarrow> string" where
  \<comment> \<open>\<^verbatim>\<open>sep.join(parts)\<close>\<close>
  "join sep [] = []"
| "join sep [p] = p"
| "join sep (p # q # ps) = p @ sep @ join sep (q # ps)"

section \<open>The wall clock and the log\<close>

text \<open>
  \<^verbatim>\<open>datetime.utcnow()\<close> reads the wall clock. The model makes the clock explicit: the
  world holds the readings the clock will give (the \<open>n\<close>-th call returns
  \<open>clock n\<close>), the number of calls made so far, and the events written through
  \<^verbatim>\<open>logger.error(event, error=...)\<close>, oldest first.
\<close>

record log_event =
  level :: string
  event :: string
  error :: string

record world =
  clock :: "nat \<Rightarrow> datetime"
  ticks :: nat
  events :: "log_event list"

definition utcnow :: "world \<Rightarrow> datetime \<times> world" where
  "utcnow w = (clock w (ticks w), w\<lparr>ticks := Suc (ticks w)\<rparr>)"

definition logger_error :: "string \<Rightarrow> string \<Rightarrow> world \<Rightarrow> world" where
  "logger_error ev err w =
     w\<lparr>events := events w @ [\<lparr>level = ''error'', event = ev, error = err\<rparr>]\<rparr>"

section \<open>Data model (app/models/schemas.py)\<close>

datatype AlertSeverity = INFO | MODERATE | HIGH | SEVERE

record SolarFlare =
  timestamp :: datetime
  class_type :: string
  scale :: real
  region :: "string option"
  peak_time :: "datetime option"
  end_time :: "datetime option"

record CME =
  timestamp :: datetime
  speed_kms :: real
  earth_directed :: bool
  estimated_arrival :: "datetime option"
  impact_probability :: "real option"

record SpaceWeatherStatus =
  timestamp :: datetime
  kp_current :: real
  kp_forecast_3h :: "real option"
  recent_flares :: "SolarFlare list"
  active_cmes :: "CME list"
  gps_degradation_risk :: string
  hf_radio_risk :: string
  satellite_risk :: string
  aurora_visibility :: "string option"
  summary :: string

record SpaceWeatherImpact =
  what_happened :: string
  potential_impacts :: "string list"
  who_should_care :: "string list"
  actionable_guidance :: string
  severity :: AlertSeverity

record SatellitePass =
  satellite_name :: string
  satellite_id :: int
  start_time :: datetime
  max_elevation_time :: datetime
  end_time :: datetime
  max_elevation :: real
  start_azimuth :: real
  max_azimuth :: real
  end_azimuth :: real
  magnitude :: "real option"
  duration_seconds :: int
  worth_watching :: bool
  commentary :: "string option"

section \<open>SpaceWeatherService (app/services/space_weather_service.py)\<close>

definition assess_gps_risk :: "real \<Rightarrow> CME list \<Rightarrow> string" where
  "assess_gps_risk kp cmes =
     (if 7 \<le> kp \<or> list_ex earth_directed cmes then ''high''
      else if 5 \<le> kp then ''moderate''
      else if 4 \<le> kp then ''minor''
      else ''none'')"

text \<open>
  The list comprehension of \<^verbatim>\<open>_assess_hf_radio_risk\<close>: for each flare the class is
  tested first, and only for a class M or X flare is the clock read and the
  \<^verbatim>\<open>.seconds\<close> attribute of the difference compared with 3600.
\<close>

fun recent_strong :: "SolarFlare list \<Rightarrow> world \<Rightarrow> SolarFlare list \<times> world" where
  "recent_strong [] w = ([], w)"
| "recent_strong (f # fs) w =
     (if class_type f = ''M'' \<or> class_type f = ''X'' then
        (let (now, w1) = utcnow w;
             keep = (seconds (datetime_sub now (SolarFlare.timestamp f)) < 3600);
             (rest, w2) = recent_strong fs w1
         in (if keep then f # rest else rest, w2))
      else recent_strong fs w)"

definition assess_hf_radio_risk :: "SolarFlare list \<Rightarrow> world \<Rightarrow> string \<times> world" where
  "assess_hf_radio_risk flares w =
     (if flares = [] then (''none'', w)
      else
        (let (rs, w1) = recent_strong flares w in
         (if list_ex (\<lambda>f. class_type f = ''X'') rs then ''high''
          else if rs \<noteq> [] then ''moderate''
          else ''minor'', w1)))"

definition assess_satellite_risk :: "real \<Rightarrow> SolarFlare list \<Rightarrow> CME list \<Rightarrow> string" where
  "assess_satellite_risk kp flares cmes =
     (if 8 \<le> kp \<or> list_ex (\<lambda>f. class_type f = ''X'' \<and> 5 < scale f) flares then ''high''
      else if 6 \<le> kp \<or> list_ex (\<lambda>f. class_type f = ''X'') flares then ''moderate''
      else if 5 \<le> kp then ''minor''
      else ''none'')"

definition assess_aurora_visibility :: "real \<Rightarrow> string" where
  "assess_aurora_visibility kp =
     (if 8 \<le> kp then ''visible_mid_latitudes''
      else if 6 \<le> kp then ''visible_high_latitudes''
      else if 4 \<le> kp then ''visible_polar_regions''
      else ''unlikely'')"

definition generate_status_summary ::
  "real \<Rightarrow> SolarFlare list \<Rightarrow> CME list \<Rightarrow> string \<Rightarrow> string \<Rightarrow> string \<Rightarrow> string" where
  "generate_status_summary kp flares cmes gps_risk hf_risk sat_risk =
     (let kp_desc =
            (if kp < 4 then ''Quiet geomagnetic conditions''
             else if kp < 5 then ''Unsettled geomagnetic conditions''
             else if kp < 6 then ''Active geomagnetic conditions''
             else if kp < 7 then ''Minor geomagnetic storm''
             else if kp < 8 then ''Moderate geomagnetic storm''
             else ''Strong geomagnetic storm'');
          summary0 = ''Status: '' @ kp_desc @ '' (Kp '' @ format_1f kp @ '').'';
          impacts =
            (if gps_risk = ''moderate'' \<or> gps_risk = ''high''
             then [capitalize gps_risk @ '' GPS degradation possible''] else []) @
            (if hf_risk = ''moderate'' \<or> hf_risk = ''high''
             then [capitalize hf_risk @ '' HF radio disruption''] else [])
      in if impacts \<noteq> [] then summary0 @ '' '' @ join ''; '' impacts @ ''.''
         else summary0 @ '' Most users unaffected.'')"

definition generate_impact_explanation :: "SpaceWeatherStatus \<Rightarrow> SpaceWeatherImpact" where
  "generate_impact_explanation status =
     (let strong_flares =
            filter (\<lambda>f. class_type f = ''M'' \<or> class_type f = ''X'') (recent_flares status);
          what_happened_parts =
            [''Kp index: '' @ format_1f (kp_current status)] @
            (if recent_flares status \<noteq> [] then
               (case strong_flares of
                  [] \<Rightarrow> []
                | f0 # _ \<Rightarrow>
                    [str_int (int (length strong_flares)) @ '' '' @ class_type f0 @
                     ''-class solar flare(s)''])
             else []) @
            (if active_cmes status \<noteq> [] then
               [str_int (int (length (active_cmes status))) @ '' active CME(s)'']
             else []);
          impacts =
            (if gps_degradation_risk status \<noteq> ''none''
             then [''GPS accuracy may be reduced for precision applications''] else []) @
            (if hf_radio_risk status \<noteq> ''none''
             then [''HF radio communications may experience disruption''] else []) @
            (if satellite_risk status \<noteq> ''none''
             then [''Satellite operations may experience anomalies''] else []) @
            (if aurora_visibility status \<noteq> Some ''unlikely''
             then [''Aurora may be visible at lower latitudes than usual''] else []);
          who_cares0 =
            (if gps_degradation_risk status = ''moderate'' \<or> gps_degradation_risk status = ''high''
             then [''Drone operators'', ''Surveyors'', ''Aviation professionals''] else []) @
            (if hf_radio_risk status = ''moderate'' \<or> hf_radio_risk status = ''high''
             then [''Ham radio operators'', ''Maritime communications'', ''Emergency services'']
             else []) @
            (if satellite_risk status = ''moderate'' \<or> satellite_risk status = ''high''
             then [''Satellite operators'', ''Space agencies''] else []);
          who_cares = (if who_cares0 = [] then [''Space weather enthusiasts''] else who_cares0);
          guidance =
            (if kp_current status < 5 then ''Continue normal operations. Monitor for updates.''
             else if kp_current status < 7 then
               ''Monitor for GPS accuracy if doing precision work. '' @
               ''Ham radio operators may experience propagation changes.''
             else
               ''Consider delaying precision GPS work. Satellite operators '' @
               ''should monitor spacecraft health. Aurora photographers: '' @
               ''good opportunity tonight!'');
          sev =
            (if 7 \<le> kp_current status then HIGH
             else if 5 \<le> kp_current status then MODERATE
             else INFO)
      in \<lparr>what_happened = join ''; '' what_happened_parts,
          potential_impacts = impacts,
          who_should_care = who_cares,
          actionable_guidance = guidance,
          severity = sev\<rparr>)"

definition get_demo_status :: "world \<Rightarrow> SpaceWeatherStatus \<times> world" where
  "get_demo_status w =
     (let (t0, w1) = utcnow w;
          (t1, w2) = utcnow w1
      in (\<lparr>SpaceWeatherStatus.timestamp = t0,
           kp_current = 5,
           kp_forecast_3h = Some 5.3,
           recent_flares =
             [\<lparr>SolarFlare.timestamp = t1 - hours 3,
               class_type = ''M'',
               scale = 5.2,
               region = Some ''AR3590'',
               peak_time = None,
               end_time = None\<rparr>],
           active_cmes = [],
           gps_degradation_risk = ''minor'',
           hf_radio_risk = ''moderate'',
           satellite_risk = ''minor'',
           aurora_visibility = Some ''visible_high_latitudes'',
           summary =
             ''Status: Active geomagnetic conditions (Kp 5.0). '' @
             ''Minor GPS degradation possible; most users unaffected.''\<rparr>, w2))"

text \<open>
  The part of \<^verbatim>\<open>get_current_status\<close> after the defaults are in place (the spec's
  \<^verbatim>\<open>assess(kp, flares, cmes)\<close>): the four assessments, the summary, and the status
  stamped with a fresh clock reading.
\<close>

definition assess ::
  "real \<Rightarrow> SolarFlare list \<Rightarrow> CME list \<Rightarrow> world \<Rightarrow> SpaceWeatherStatus \<times> world" where
  "assess kp flares cmes w =
     (let gps_risk = assess_gps_risk kp cmes;
          (hf_risk, w1) = assess_hf_radio_risk flares w;
          sat_risk = assess_satellite_risk kp flares cmes;
          aurora_vis = assess_aurora_visibility kp;
          summ = generate_status_summary kp flares cmes gps_risk hf_risk sat_risk;
          (now, w2) = utcnow w1
      in (\<lparr>SpaceWeatherStatus.timestamp = now,
           kp_current = kp,
           kp_forecast_3h = None,
           recent_flares = flares,
           active_cmes = cmes,
           gps_degradation_risk = gps_risk,
           hf_radio_risk = hf_risk,
           satellite_risk = sat_risk,
           aurora_visibility = Some aurora_vis,
           summary = summ\<rparr>, w2))"



datatype json =
    JNull
  | JBool bool
  | JNumber real
  | JString string
  | JArray "json list"
  | JObject "(string \<times> json) list"







section \<open>SatelliteService (app/services/satellite_service.py)\<close>


record pass_data =
  startUTC :: int
  maxUTC :: int
  endUTC :: int
  maxEl :: real
  startAz :: real
  maxAz :: real
  endAz :: real
  mag :: "real option"
  duration :: int

record n2yo_info =
  satname :: string
  satid :: int




definition is_worth_watching :: "pass_data \<Rightarrow> bool" where
  \<comment> \<open>the expression bound to \<^verbatim>\<open>worth_watching\<close> in the loop of \<^verbatim>\<open>_get_satellite_passes\<close>\<close>
  "is_worth_watching pd =
     (40 < maxEl pd \<or> (case mag pd of None \<Rightarrow> 5 | Some m \<Rightarrow> m) < 0)"

definition generate_commentary :: "pass_data \<Rightarrow> bool \<Rightarrow> string" where
  "generate_commentary pd worth =
     (let max_el = maxEl pd;
          dur = duration pd
      in if \<not> worth then ''Low pass, may not be easily visible.''
         else
           (let visibility =
                  (if 70 < max_el then ''Overhead pass! Excellent viewing.''
                   else if 50 < max_el then ''High pass, very good viewing.''
                   else if 30 < max_el then ''Good pass, should be easy to spot.''
                   else ''Moderate pass, clear sky recommended.'');
                time_note =
                  (if dur < 180 then ''Quick pass''
                   else if dur < 360 then ''Standard duration''
                   else ''Long pass'')
            in visibility @ '' '' @ time_note @ '' ('' @ str_int dur @ ''s).''))"

definition satellite_pass ::
  "datetime \<Rightarrow> datetime \<Rightarrow> datetime \<Rightarrow> n2yo_info \<Rightarrow> pass_data \<Rightarrow> SatellitePass" where
  \<comment> \<open>the verdict and the \<^verbatim>\<open>SatellitePass(...)\<close> record of the loop body, the three times converted\<close>
  "satellite_pass t_start t_max t_end sat_info pd =
     (let worth = is_worth_watching pd
      in \<lparr>satellite_name = satname sat_info,
          satellite_id = satid sat_info,
          start_time = t_start,
          max_elevation_time = t_max,
          end_time = t_end,
          max_elevation = maxEl pd,
          start_azimuth = startAz pd,
          max_azimuth = maxAz pd,
          end_azimuth = endAz pd,
          magnitude = mag pd,
          duration_seconds = duration pd,
          worth_watching = worth,
          commentary = Some (generate_commentary pd worth)\<rparr>)"




definition get_demo_passes :: "world \<Rightarrow> SatellitePass list \<times> world" where
  "get_demo_passes w =
     (let (now, w1) = utcnow w;
          tonight0 = now - now mod 86400000000 + hours 19 + minutes 41;
          tonight_7pm = (if tonight0 < now then tonight0 + hours 24 else tonight0)
      in ([\<lparr>satellite_name = ''ISS (ZARYA)'',
            satellite_id = 25544,
            start_time = tonight_7pm,
            max_elevation_time = tonight_7pm + minutes 3,
            end_time = tonight_7pm + minutes 6,
            max_elevation = 63,
            start_azimuth = 225,
            max_azimuth = 180,
            end_azimuth = 45,
            magnitude = Some (- 3.5),
            duration_seconds = 360,
            worth_watching = True,
            commentary = Some ''High pass, very good viewing. Standard duration (360s).''\<rparr>,
           \<lparr>satellite_name = ''ISS (ZARYA)'',
            satellite_id = 25544,
            start_time = tonight_7pm + hours 13,
            max_elevation_time = tonight_7pm + (hours 13 + minutes 2),
            end_time = tonight_7pm + (hours 13 + minutes 5),
            max_elevation = 45,
            start_azimuth = 270,
            max_azimuth = 180,
            end_azimuth = 90,
            magnitude = Some (- 2.8),
            duration_seconds = 300,
            worth_watching = True,
            commentary = Some ''Good pass, should be easy to spot. Standard duration (300s).''\<rparr>],
          w1))"

section \<open>Orderings on the classifications, the clauses of the commentary, sample inputs\<close>

text \<open>
  The severity orderings: \<open>none < minor < moderate < high\<close> on the risk levels,
  \<open>unlikely < visible_polar_regions < visible_high_latitudes < visible_mid_latitudes\<close>
  on the aurora ratings, \<open>info < moderate < high < severe\<close> on the alert severities.
  A string that is no level has no rank, and \<open>rank_le\<close> holds only between ranked values.
\<close>

definition risk_rank :: "string \<Rightarrow> nat option" where
  "risk_rank r =
     (if r = ''none'' then Some 0
      else if r = ''minor'' then Some 1
      else if r = ''moderate'' then Some 2
      else if r = ''high'' then Some 3
      else None)"

definition aurora_rank :: "string option \<Rightarrow> nat option" where
  "aurora_rank a =
     (if a = Some ''unlikely'' then Some 0
      else if a = Some ''visible_polar_regions'' then Some 1
      else if a = Some ''visible_high_latitudes'' then Some 2
      else if a = Some ''visible_mid_latitudes'' then Some 3
      else None)"

fun severity_rank :: "AlertSeverity \<Rightarrow> nat" where
  "severity_rank INFO = 0"
| "severity_rank MODERATE = 1"
| "severity_rank HIGH = 2"
| "severity_rank SEVERE = 3"

definition rank_le :: "nat option \<Rightarrow> nat option \<Rightarrow> bool" where
  "rank_le a b = (case (a, b) of (Some x, Some y) \<Rightarrow> x \<le> y | _ \<Rightarrow> False)"

text \<open>The two clauses of the commentary, as the specification tabulates them.\<close>

definition visibility_clause :: "real \<Rightarrow> string" where
  "visibility_clause el =
     (if 70 < el then ''Overhead pass! Excellent viewing.''
      else if 50 < el then ''High pass, very good viewing.''
      else if 30 < el then ''Good pass, should be easy to spot.''
      else ''Moderate pass, clear sky recommended.'')"

definition duration_clause :: "int \<Rightarrow> string" where
  "duration_clause d =
     (if d < 180 then ''Quick pass''
      else if d < 360 then ''Standard duration''
      else ''Long pass'')"

text \<open>
  The HF-radio rule as the specification words it: a flare is recent when the whole
  difference between the evaluation time and its timestamp is below 3600 seconds.
\<close>

definition spec_hf_radio_risk :: "datetime \<Rightarrow> SolarFlare list \<Rightarrow> string" where
  "spec_hf_radio_risk now flares =
     (let restricted =
            filter (\<lambda>f. (class_type f = ''M'' \<or> class_type f = ''X'') \<and>
                        total_seconds (datetime_sub now (SolarFlare.timestamp f)) < 3600) flares
      in if flares = [] then ''none''
         else if list_ex (\<lambda>f. class_type f = ''X'') restricted then ''high''
         else if restricted \<noteq> [] then ''moderate''
         else ''minor'')"

text \<open>Sample inputs.\<close>

definition frozen_clock :: "datetime \<Rightarrow> world" where
  \<comment> \<open>a clock that reads \<open>now\<close> at every call, and an empty log\<close>
  "frozen_clock now = \<lparr>clock = (\<lambda>_. now), ticks = 0, events = []\<rparr>"

definition half_hour_clock :: world where
  \<comment> \<open>a clock first read at 00:30 that advances one hour between readings\<close>
  "half_hour_clock = \<lparr>clock = (\<lambda>n. minutes 30 + hours (int n)), ticks = 0, events = []\<rparr>"

definition day_old_flare :: "datetime \<Rightarrow> SolarFlare" where
  \<comment> \<open>a class X flare observed one day and ten minutes before \<open>now\<close>\<close>
  "day_old_flare now =
     \<lparr>SolarFlare.timestamp = now - (hours 24 + minutes 10), class_type = ''X'', scale = 1,
      region = None, peak_time = None, end_time = None\<rparr>"

definition epoch_flare :: SolarFlare where
  \<comment> \<open>a class X flare observed at 00:00\<close>
  "epoch_flare =
     \<lparr>SolarFlare.timestamp = 0, class_type = ''X'', scale = 1,
      region = None, peak_time = None, end_time = None\<rparr>"

definition low_pass :: pass_data where
  \<comment> \<open>elevation 20, 100 seconds, no magnitude\<close>
  "low_pass =
     \<lparr>startUTC = 0, maxUTC = 50, endUTC = 100, maxEl = 20, startAz = 0, maxAz = 90,
      endAz = 180, mag = None, duration = 100\<rparr>"





definition with_geometry :: "SatellitePass \<Rightarrow> pass_data \<Rightarrow> pass_data" where
  \<comment> \<open>the elevation, magnitude and duration of a pass, as the input of the evaluation\<close>
  "with_geometry p pd =
     pd\<lparr>maxEl := max_elevation p, mag := magnitude p, duration := duration_seconds p\<rparr>"

section \<open>Auxiliary facts\<close>

lemma recent_strong_world:
  "clock (snd (recent_strong fs w)) = clock w \<and> events (snd (recent_strong fs w)) = events w"
  by (induction fs arbitrary: w) (simp_all add: utcnow_def split_def Let_def)

lemma recent_strong_cong:
  "clock w = clock w' \<Longrightarrow> ticks w = ticks w' \<Longrightarrow>
   fst (recent_strong fs w) = fst (recent_strong fs w') \<and>
   ticks (snd (recent_strong fs w)) = ticks (snd (recent_strong fs w'))"
proof (induction fs arbitrary: w w')
  case Nil
  then show ?case by simp
next
  case (Cons f fs)
  have "clock (snd (utcnow w)) = clock (snd (utcnow w'))"
       "ticks (snd (utcnow w)) = ticks (snd (utcnow w'))"
    using Cons.prems by (simp_all add: utcnow_def)
  from Cons.IH[OF this] Cons.IH[OF Cons.prems] Cons.prems
  show ?case by (simp add: split_def Let_def utcnow_def)
qed

lemma recent_strong_no_strong:
  "filter (\<lambda>f. class_type f = ''M'' \<or> class_type f = ''X'') fs = [] \<Longrightarrow>
   recent_strong fs w = ([], w)"
  by (induction fs arbitrary: w) (simp_all split: if_splits)

lemma hf_world:
  "clock (snd (assess_hf_radio_risk fs w)) = clock w \<and>
   events (snd (assess_hf_radio_risk fs w)) = events w"
  using recent_strong_world[of fs w] by (simp add: assess_hf_radio_risk_def split_def Let_def)

lemma hf_cong:
  "clock w = clock w' \<Longrightarrow> ticks w = ticks w' \<Longrightarrow>
   fst (assess_hf_radio_risk fs w) = fst (assess_hf_radio_risk fs w') \<and>
   ticks (snd (assess_hf_radio_risk fs w)) = ticks (snd (assess_hf_radio_risk fs w'))"
  using recent_strong_cong[of w w' fs] by (simp add: assess_hf_radio_risk_def split_def Let_def)

lemma hf_no_strong:
  "filter (\<lambda>f. class_type f = ''M'' \<or> class_type f = ''X'') fs = [] \<Longrightarrow>
   fst (assess_hf_radio_risk fs w) = (if fs = [] then ''none'' else ''minor'')"
  by (simp add: assess_hf_radio_risk_def recent_strong_no_strong)

lemma assess_fields:
  "kp_current (fst (assess kp fl cm w)) = kp"
  "recent_flares (fst (assess kp fl cm w)) = fl"
  "active_cmes (fst (assess kp fl cm w)) = cm"
  "gps_degradation_risk (fst (assess kp fl cm w)) = assess_gps_risk kp cm"
  "hf_radio_risk (fst (assess kp fl cm w)) = fst (assess_hf_radio_risk fl w)"
  "satellite_risk (fst (assess kp fl cm w)) = assess_satellite_risk kp fl cm"
  "aurora_visibility (fst (assess kp fl cm w)) = Some (assess_aurora_visibility kp)"
  "summary (fst (assess kp fl cm w)) =
     generate_status_summary kp fl cm (assess_gps_risk kp cm) (fst (assess_hf_radio_risk fl w))
       (assess_satellite_risk kp fl cm)"
  "SpaceWeatherStatus.timestamp (fst (assess kp fl cm w)) =
     fst (utcnow (snd (assess_hf_radio_risk fl w)))"
  "events (snd (assess kp fl cm w)) = events w"
  "clock (snd (assess kp fl cm w)) = clock w"
  using hf_world[of fl w] by (simp_all add: assess_def split_def Let_def utcnow_def)

lemma assess_cong:
  assumes "clock w = clock w'" "ticks w = ticks w'"
  shows "fst (assess kp fl cm w) = fst (assess kp fl cm w')"
proof -
  from hf_cong[OF assms, of fl] hf_world[of fl w] hf_world[of fl w'] assms
  show ?thesis
    by (simp add: assess_def split_def Let_def utcnow_def)
qed

lemma gps_mono:
  "kp1 \<le> kp2 \<Longrightarrow>
   rank_le (risk_rank (assess_gps_risk kp1 cmes)) (risk_rank (assess_gps_risk kp2 cmes))"
  by (simp add: assess_gps_risk_def risk_rank_def rank_le_def)

lemma satellite_mono:
  "kp1 \<le> kp2 \<Longrightarrow>
   rank_le (risk_rank (assess_satellite_risk kp1 flares cmes))
           (risk_rank (assess_satellite_risk kp2 flares cmes))"
  by (simp add: assess_satellite_risk_def risk_rank_def rank_le_def)

lemma aurora_mono:
  "kp1 \<le> kp2 \<Longrightarrow>
   rank_le (aurora_rank (Some (assess_aurora_visibility kp1)))
           (aurora_rank (Some (assess_aurora_visibility kp2)))"
  by (simp add: assess_aurora_visibility_def aurora_rank_def rank_le_def)

lemma hf_ranked:
  "rank_le (risk_rank (fst (assess_hf_radio_risk flares w)))
           (risk_rank (fst (assess_hf_radio_risk flares w)))"
  by (simp add: assess_hf_radio_risk_def split_def Let_def risk_rank_def rank_le_def)

lemma severity_mono:
  "kp_current s1 \<le> kp_current s2 \<Longrightarrow>
   severity_rank (severity (generate_impact_explanation s1)) \<le>
   severity_rank (severity (generate_impact_explanation s2))"
  by (simp add: generate_impact_explanation_def Let_def)

lemma demo_summary_unreachable:
  "generate_status_summary 5 fl cm g h s \<noteq>
     ''Status: Active geomagnetic conditions (Kp 5.0). '' @
     ''Minor GPS degradation possible; most users unaffected.''"
  by (simp add: generate_status_summary_def format_1f_def round_half_even_def Let_def
      str_nat.simps upper_char_def lower_char_def ascii_lowercase_def ascii_uppercase_def)







text \<open>
  Where the code and the specification agree on the HF-radio rule: on a clock that
  stands still, for flares stamped at most one day before the reading and not after it,
  \<^verbatim>\<open>.seconds\<close> is below 3600 exactly when the whole difference is.
\<close>

lemma frozen_recent_strong:
  "clock w = (\<lambda>_. now) \<Longrightarrow>
   fst (recent_strong fs w) =
     filter (\<lambda>f. (class_type f = ''M'' \<or> class_type f = ''X'') \<and>
                 seconds (datetime_sub now (SolarFlare.timestamp f)) < 3600) fs"
  by (induction fs arbitrary: w) (simp_all add: utcnow_def split_def Let_def)

lemma seconds_total:
  assumes "0 \<le> a - b" "a - b < 86400000000"
  shows "(seconds (datetime_sub a b) < 3600) = (total_seconds (datetime_sub a b) < 3600)"
proof -
  define d where "d = a - b"
  have d: "0 \<le> d" "d < 86400000000" using assms by (simp_all add: d_def)
  then have dv: "d div 86400000000 = 0" "d mod 86400000000 = d" by simp_all
  have m: "0 \<le> d mod 1000000" "d mod 1000000 < 1000000" by simp_all
  have ts: "total_seconds (datetime_sub a b) =
      of_int (d div 1000000) + of_int (d mod 1000000) / 1000000"
    by (simp add: total_seconds_def datetime_sub_def timedelta_of_microseconds_def dv
        d_def[symmetric])
  have sc: "seconds (datetime_sub a b) = d div 1000000"
    by (simp add: datetime_sub_def timedelta_of_microseconds_def dv d_def[symmetric])
  have frac: "0 \<le> (of_int (d mod 1000000) :: real) / 1000000"
    "(of_int (d mod 1000000) :: real) / 1000000 < 1"
    using m by simp_all
  show ?thesis
  proof
    assume "seconds (datetime_sub a b) < 3600"
    then have "d div 1000000 \<le> 3599" by (simp add: sc)
    then have "(of_int (d div 1000000) :: real) \<le> 3599" by linarith
    with frac show "total_seconds (datetime_sub a b) < 3600" by (simp add: ts)
  next
    assume "total_seconds (datetime_sub a b) < 3600"
    with frac have "(of_int (d div 1000000) :: real) < 3600" by (simp add: ts)
    then show "seconds (datetime_sub a b) < 3600" by (simp add: sc)
  qed
qed

lemma hf_agrees_within_a_day:
  assumes "clock w = (\<lambda>_. now)"
    and "list_all (\<lambda>f. 0 \<le> now - SolarFlare.timestamp f \<and>
                        now - SolarFlare.timestamp f < 86400000000) flares"
  shows "fst (assess_hf_radio_risk flares w) = spec_hf_radio_risk now flares"
proof -
  have "filter (\<lambda>f. (class_type f = ''M'' \<or> class_type f = ''X'') \<and>
                 seconds (datetime_sub now (SolarFlare.timestamp f)) < 3600) flares =
        filter (\<lambda>f. (class_type f = ''M'' \<or> class_type f = ''X'') \<and>
                 total_seconds (datetime_sub now (SolarFlare.timestamp f)) < 3600) flares"
    using assms(2) by (intro filter_cong) (auto simp: list_all_iff seconds_total)
  then show ?thesis
    using frozen_recent_strong[OF assms(1), of flares]
    by (simp add: assess_hf_radio_risk_def spec_hf_radio_risk_def split_def Let_def)
qed

section \<open>The claims\<close>

text \<open>
  Claim C2. For every kp value and every CME list the GPS risk is \<open>high\<close> if
  \<open>kp \<ge> 7\<close> or some CME is earth-directed, else \<open>moderate\<close> if \<open>kp \<ge> 5\<close>, else
  \<open>minor\<close> if \<open>kp \<ge> 4\<close>, else \<open>none\<close>; an earth-directed CME alone gives \<open>high\<close>
  whatever kp is, and the status assessed from kp 7.0, no flares and one earth-directed
  CME has GPS risk \<open>high\<close>.
\<close>

theorem gps_risk_classification:
  "assess_gps_risk kp cmes =
     (if 7 \<le> kp \<or> (\<exists>c \<in> set cmes. earth_directed c) then ''high''
      else if 5 \<le> kp then ''moderate''
      else if 4 \<le> kp then ''minor''
      else ''none'') \<and>
   assess_gps_risk kp [c\<lparr>earth_directed := True\<rparr>] = ''high'' \<and>
   gps_degradation_risk (fst (assess 7 [] [c\<lparr>earth_directed := True\<rparr>] w)) = ''high''"
  by (simp add: assess_fields assess_gps_risk_def list_ex_iff)

text \<open>
  Claim C3. For every kp value, flare list and CME list the satellite-operations risk is
  \<open>high\<close> if \<open>kp \<ge> 8\<close> or some class X flare has scale above 5, else \<open>moderate\<close> if
  \<open>kp \<ge> 6\<close> or some class X flare exists, else \<open>minor\<close> if \<open>kp \<ge> 5\<close>, else
  \<open>none\<close>, the first matching rule winning; with kp 3.0 and a single class X flare of
  scale 6 the risk is \<open>high\<close>.
\<close>

theorem satellite_risk_classification:
  "assess_satellite_risk kp flares cmes =
     (if 8 \<le> kp \<or> (\<exists>f \<in> set flares. class_type f = ''X'' \<and> 5 < scale f) then ''high''
      else if 6 \<le> kp \<or> (\<exists>f \<in> set flares. class_type f = ''X'') then ''moderate''
      else if 5 \<le> kp then ''minor''
      else ''none'') \<and>
   satellite_risk (fst (assess 3 [f\<lparr>class_type := ''X'', scale := 6\<rparr>] [] w)) = ''high''"
  by (simp add: assess_fields assess_satellite_risk_def list_ex_iff)

text \<open>
  Claim C4. A pass is worth watching exactly when its maximum elevation is above 40
  degrees or its magnitude is present and below 0, on the input of the evaluation and on
  the pass record the loop builds from it (whatever its three times); without a magnitude the brightness branch does not
  fire, so a pass of elevation at most 40 without magnitude is not worth watching; a
  pass of elevation 20 and magnitude -1.0 is worth watching.
\<close>

theorem worth_watching_rule:
  "is_worth_watching pd = (40 < maxEl pd \<or> (\<exists>m. mag pd = Some m \<and> m < 0)) \<and>
   worth_watching (satellite_pass ts tm te si pd) =
     (40 < max_elevation (satellite_pass ts tm te si pd) \<or>
      (\<exists>m. magnitude (satellite_pass ts tm te si pd) = Some m \<and> m < 0)) \<and>
   (maxEl pd \<le> 40 \<and> mag pd = None \<longrightarrow> \<not> is_worth_watching pd) \<and>
   is_worth_watching (pd\<lparr>maxEl := 20, duration := 400, mag := Some (- 1)\<rparr>)"
  by (cases "mag pd") (simp_all add: is_worth_watching_def satellite_pass_def Let_def)

theorem worth_watching_rule_witness:
  "maxEl low_pass \<le> 40 \<and> mag low_pass = None \<and> \<not> is_worth_watching low_pass"
  using worth_watching_rule[of low_pass] by (simp add: low_pass_def)

text \<open>
  Claim C5. When the pass is not worth watching the commentary is the fixed low-pass
  text, whatever the duration; when it is, the commentary is the visibility clause
  chosen by the elevation, a space, the duration clause, and the duration in
  parentheses followed by \<open>s\<close> and a full stop; elevation 75 and duration 200 give
  \<open>Overhead pass! Excellent viewing. Standard duration (200s).\<close>
\<close>

theorem commentary_tiers:
  "generate_commentary pd False = ''Low pass, may not be easily visible.'' \<and>
   generate_commentary pd True =
     visibility_clause (maxEl pd) @ '' '' @ duration_clause (duration pd) @
     '' ('' @ str_int (duration pd) @ ''s).'' \<and>
   commentary (satellite_pass ts tm te si pd) =
     Some (if worth_watching (satellite_pass ts tm te si pd)
           then visibility_clause (max_elevation (satellite_pass ts tm te si pd)) @ '' '' @
                duration_clause (duration_seconds (satellite_pass ts tm te si pd)) @
                '' ('' @ str_int (duration_seconds (satellite_pass ts tm te si pd)) @ ''s).''
           else ''Low pass, may not be easily visible.'') \<and>
   generate_commentary (pd\<lparr>maxEl := 75, duration := 200\<rparr>) True =
     ''Overhead pass! Excellent viewing. Standard duration (200s).''"
proof -
  have low: "generate_commentary pd False = ''Low pass, may not be easily visible.''"
    by (simp add: generate_commentary_def)
  have tiers: "\<And>pd. generate_commentary pd True =
     visibility_clause (maxEl pd) @ '' '' @ duration_clause (duration pd) @
     '' ('' @ str_int (duration pd) @ ''s).''"
    by (simp add: generate_commentary_def visibility_clause_def duration_clause_def Let_def)
  have built: "commentary (satellite_pass ts tm te si pd) =
     Some (if worth_watching (satellite_pass ts tm te si pd)
           then visibility_clause (max_elevation (satellite_pass ts tm te si pd)) @ '' '' @
                duration_clause (duration_seconds (satellite_pass ts tm te si pd)) @
                '' ('' @ str_int (duration_seconds (satellite_pass ts tm te si pd)) @ ''s).''
           else ''Low pass, may not be easily visible.'')"
    using low tiers[of pd] by (cases "is_worth_watching pd") (simp_all add: satellite_pass_def Let_def)
  have example: "generate_commentary (pd\<lparr>maxEl := 75, duration := 200\<rparr>) True =
     ''Overhead pass! Excellent viewing. Standard duration (200s).''"
    by (simp add: generate_commentary_def Let_def str_int_def str_nat.simps)
  from low tiers[of pd] built example show ?thesis by blast
qed

text \<open>
  Claim C1 (what the code does where the claim fails). The claim restricts the flares to
  those of class M or X whose wall-clock difference to the evaluation time is below 3600
  seconds, so that a strong flare observed more than one hour before never counts as
  recent. The code compares the \<^verbatim>\<open>.seconds\<close> attribute of the difference: for a class X
  flare observed one day and ten minutes before the evaluation time the difference is
  87000 seconds, its \<^verbatim>\<open>.seconds\<close> attribute is 600, and the code answers \<open>high\<close> where
  the rule of the claim answers \<open>minor\<close>.
\<close>

theorem hf_radio_risk_day_old_flare_counts_as_recent:
  "fst (assess_hf_radio_risk [day_old_flare now] (frozen_clock now)) = ''high'' \<and>
   spec_hf_radio_risk now [day_old_flare now] = ''minor'' \<and>
   total_seconds (datetime_sub now (SolarFlare.timestamp (day_old_flare now))) = 87000 \<and>
   seconds (datetime_sub now (SolarFlare.timestamp (day_old_flare now))) = 600"
  by (simp add: assess_hf_radio_risk_def spec_hf_radio_risk_def utcnow_def datetime_sub_def
      total_seconds_def timedelta_of_microseconds_def hours_def minutes_def day_old_flare_def
      frozen_clock_def)

text \<open>
  Claim C6. With the flare list, the CME list and the clock held fixed, the GPS risk, the
  HF-radio risk, the satellite-operations risk and the aurora visibility of the assessed
  status, and the severity of its impact explanation, do not decrease in their
  orderings when kp increases (for all kp, in particular within 0 to 9).
\<close>

theorem risk_monotone_in_kp:
  "kp1 \<le> kp2 \<longrightarrow>
     rank_le (risk_rank (gps_degradation_risk (fst (assess kp1 flares cmes w))))
             (risk_rank (gps_degradation_risk (fst (assess kp2 flares cmes w)))) \<and>
     rank_le (risk_rank (hf_radio_risk (fst (assess kp1 flares cmes w))))
             (risk_rank (hf_radio_risk (fst (assess kp2 flares cmes w)))) \<and>
     rank_le (risk_rank (satellite_risk (fst (assess kp1 flares cmes w))))
             (risk_rank (satellite_risk (fst (assess kp2 flares cmes w)))) \<and>
     rank_le (aurora_rank (aurora_visibility (fst (assess kp1 flares cmes w))))
             (aurora_rank (aurora_visibility (fst (assess kp2 flares cmes w)))) \<and>
     severity_rank (severity (generate_impact_explanation (fst (assess kp1 flares cmes w)))) \<le>
     severity_rank (severity (generate_impact_explanation (fst (assess kp2 flares cmes w))))"
  using gps_mono[of kp1 kp2 cmes] satellite_mono[of kp1 kp2 flares cmes] aurora_mono[of kp1 kp2]
    hf_ranked[of flares w]
    severity_mono[of "fst (assess kp1 flares cmes w)" "fst (assess kp2 flares cmes w)"]
  by (simp add: assess_fields)

theorem risk_monotone_in_kp_witness:
  "(4.5 :: real) \<le> 7.5 \<and>
   rank_le (risk_rank (gps_degradation_risk (fst (assess 4.5 [epoch_flare] [] half_hour_clock))))
           (risk_rank (gps_degradation_risk (fst (assess 7.5 [epoch_flare] [] half_hour_clock)))) \<and>
   rank_le (risk_rank (hf_radio_risk (fst (assess 4.5 [epoch_flare] [] half_hour_clock))))
           (risk_rank (hf_radio_risk (fst (assess 7.5 [epoch_flare] [] half_hour_clock)))) \<and>
   rank_le (risk_rank (satellite_risk (fst (assess 4.5 [epoch_flare] [] half_hour_clock))))
           (risk_rank (satellite_risk (fst (assess 7.5 [epoch_flare] [] half_hour_clock)))) \<and>
   rank_le (aurora_rank (aurora_visibility (fst (assess 4.5 [epoch_flare] [] half_hour_clock))))
           (aurora_rank (aurora_visibility (fst (assess 7.5 [epoch_flare] [] half_hour_clock)))) \<and>
   severity_rank (severity (generate_impact_explanation
       (fst (assess 4.5 [epoch_flare] [] half_hour_clock)))) \<le>
   severity_rank (severity (generate_impact_explanation
       (fst (assess 7.5 [epoch_flare] [] half_hour_clock))))"
  using risk_monotone_in_kp[of "4.5" "7.5" "[epoch_flare]" "[]" half_hour_clock] by simp

text \<open>
  Claim C7 (counterexample). The assessment reads the wall clock: with kp 3.0, one class
  X flare stamped 00:00 and no CME, a first call whose clock reads 00:30 reports HF risk
  \<open>high\<close>, and a second call with the same three inputs, made after the first on the
  same clock (now reading 02:30), reports \<open>minor\<close>; the two statuses differ.
\<close>

theorem assess_depends_on_wall_clock:
  "hf_radio_risk (fst (assess 3 [epoch_flare] [] half_hour_clock)) = ''high'' \<and>
   hf_radio_risk (fst (assess 3 [epoch_flare] []
      (snd (assess 3 [epoch_flare] [] half_hour_clock)))) = ''minor'' \<and>
   fst (assess 3 [epoch_flare] [] half_hour_clock) \<noteq>
   fst (assess 3 [epoch_flare] [] (snd (assess 3 [epoch_flare] [] half_hour_clock)))"
proof -
  have a: "hf_radio_risk (fst (assess 3 [epoch_flare] [] half_hour_clock)) = ''high''"
    by (simp add: assess_fields assess_hf_radio_risk_def utcnow_def datetime_sub_def
      timedelta_of_microseconds_def hours_def minutes_def epoch_flare_def half_hour_clock_def)
  have w1: "snd (assess 3 [epoch_flare] [] half_hour_clock) = half_hour_clock\<lparr>ticks := 2\<rparr>"
    by (simp add: assess_def assess_hf_radio_risk_def utcnow_def split_def Let_def
      epoch_flare_def half_hour_clock_def)
  have b: "hf_radio_risk (fst (assess 3 [epoch_flare] []
      (snd (assess 3 [epoch_flare] [] half_hour_clock)))) = ''minor''"
    unfolding w1
    by (simp add: assess_fields assess_hf_radio_risk_def utcnow_def datetime_sub_def
      timedelta_of_microseconds_def hours_def minutes_def epoch_flare_def half_hour_clock_def)
  from a b show ?thesis by auto
qed

text \<open>
  Claim C7 (amended). Two calls of the assessment with identical kp, flare list and CME
  list agree on the kp, flare and CME fields and on the GPS risk, the satellite risk and
  the aurora visibility, whatever the wall clock reads; when the flare list holds no
  class M or X flare they also agree on the HF-radio risk and on the summary; and two
  calls that see the same clock readings return identical statuses. The remaining
  dependence (the timestamp, and through the one-hour window the HF-radio risk and the
  summary) is on the readings of the wall clock during the call.
\<close>

theorem assess_clock_independent_fields:
  "kp_current (fst (assess kp fl cm w)) = kp_current (fst (assess kp fl cm w')) \<and>
   recent_flares (fst (assess kp fl cm w)) = recent_flares (fst (assess kp fl cm w')) \<and>
   active_cmes (fst (assess kp fl cm w)) = active_cmes (fst (assess kp fl cm w')) \<and>
   gps_degradation_risk (fst (assess kp fl cm w)) =
     gps_degradation_risk (fst (assess kp fl cm w')) \<and>
   satellite_risk (fst (assess kp fl cm w)) = satellite_risk (fst (assess kp fl cm w')) \<and>
   aurora_visibility (fst (assess kp fl cm w)) = aurora_visibility (fst (assess kp fl cm w')) \<and>
   (filter (\<lambda>f. class_type f = ''M'' \<or> class_type f = ''X'') fl = [] \<longrightarrow>
      hf_radio_risk (fst (assess kp fl cm w)) = hf_radio_risk (fst (assess kp fl cm w')) \<and>
      summary (fst (assess kp fl cm w)) = summary (fst (assess kp fl cm w'))) \<and>
   (clock w = clock w' \<and> ticks w = ticks w' \<longrightarrow>
      fst (assess kp fl cm w) = fst (assess kp fl cm w'))"
  using assess_cong[of w w' kp fl cm] hf_no_strong[of fl w] hf_no_strong[of fl w']
  by (simp add: assess_fields)

theorem assess_clock_independent_fields_witness:
  "filter (\<lambda>f. class_type f = ''M'' \<or> class_type f = ''X'') [epoch_flare\<lparr>class_type := ''C''\<rparr>] = [] \<and>
   clock half_hour_clock = clock (logger_error ''Failed to fetch Kp'' ''timeout'' half_hour_clock) \<and>
   ticks half_hour_clock = ticks (logger_error ''Failed to fetch Kp'' ''timeout'' half_hour_clock) \<and>
   hf_radio_risk (fst (assess 3 [epoch_flare\<lparr>class_type := ''C''\<rparr>] [] half_hour_clock)) =
   hf_radio_risk (fst (assess 3 [epoch_flare\<lparr>class_type := ''C''\<rparr>] []
      (logger_error ''Failed to fetch Kp'' ''timeout'' half_hour_clock))) \<and>
   summary (fst (assess 3 [epoch_flare\<lparr>class_type := ''C''\<rparr>] [] half_hour_clock)) =
   summary (fst (assess 3 [epoch_flare\<lparr>class_type := ''C''\<rparr>] []
      (logger_error ''Failed to fetch Kp'' ''timeout'' half_hour_clock))) \<and>
   fst (assess 3 [epoch_flare\<lparr>class_type := ''C''\<rparr>] [] half_hour_clock) =
   fst (assess 3 [epoch_flare\<lparr>class_type := ''C''\<rparr>] []
      (logger_error ''Failed to fetch Kp'' ''timeout'' half_hour_clock))"
  using assess_clock_independent_fields[of 3 "[epoch_flare\<lparr>class_type := ''C''\<rparr>]" "[]"
      half_hour_clock "logger_error ''Failed to fetch Kp'' ''timeout'' half_hour_clock"]
  by (simp add: logger_error_def)





text \<open>
  Claim C10 (what the code does where the claim fails). The demo status carries GPS risk
  \<open>minor\<close>, aurora \<open>visible_high_latitudes\<close> and HF risk \<open>moderate\<close>, where the
  assessment functions applied to its own kp 5.0, flares and CMEs give \<open>moderate\<close>,
  \<open>visible_polar_regions\<close> and (on a clock that stands still) \<open>minor\<close>; its summary is
  a text the summary generator returns for no risk levels at all; and the first demo
  pass carries the commentary \<open>Standard duration (360s)\<close> where the commentary
  function gives \<open>Long pass (360s)\<close> for its 360 seconds.
\<close>

theorem demo_fixtures_disagree_with_engine:
  "gps_degradation_risk (fst (get_demo_status w)) = ''minor'' \<and>
   assess_gps_risk (kp_current (fst (get_demo_status w))) (active_cmes (fst (get_demo_status w)))
     = ''moderate'' \<and>
   aurora_visibility (fst (get_demo_status w)) = Some ''visible_high_latitudes'' \<and>
   assess_aurora_visibility (kp_current (fst (get_demo_status w))) = ''visible_polar_regions'' \<and>
   hf_radio_risk (fst (get_demo_status (frozen_clock now))) = ''moderate'' \<and>
   fst (assess_hf_radio_risk (recent_flares (fst (get_demo_status (frozen_clock now))))
          (snd (get_demo_status (frozen_clock now)))) = ''minor'' \<and>
   summary (fst (get_demo_status w)) \<noteq>
     generate_status_summary (kp_current (fst (get_demo_status w)))
       (recent_flares (fst (get_demo_status w))) (active_cmes (fst (get_demo_status w))) g h s \<and>
   map commentary (fst (get_demo_passes w)) =
     [Some ''High pass, very good viewing. Standard duration (360s).'',
      Some ''Good pass, should be easy to spot. Standard duration (300s).''] \<and>
   map (\<lambda>p. generate_commentary (with_geometry p pd) (is_worth_watching (with_geometry p pd)))
       (fst (get_demo_passes w)) =
     [''High pass, very good viewing. Long pass (360s).'',
      ''Good pass, should be easy to spot. Standard duration (300s).'']"
proof -
  have st: "kp_current (fst (get_demo_status w)) = 5"
    "active_cmes (fst (get_demo_status w)) = []"
    "gps_degradation_risk (fst (get_demo_status w)) = ''minor''"
    "aurora_visibility (fst (get_demo_status w)) = Some ''visible_high_latitudes''"
    "summary (fst (get_demo_status w)) =
       ''Status: Active geomagnetic conditions (Kp 5.0). '' @
       ''Minor GPS degradation possible; most users unaffected.''"
    by (simp_all add: get_demo_status_def split_def Let_def)
  have gps: "assess_gps_risk 5 [] = ''moderate''"
    by (simp add: assess_gps_risk_def)
  have aur: "assess_aurora_visibility 5 = ''visible_polar_regions''"
    by (simp add: assess_aurora_visibility_def)
  have hf: "hf_radio_risk (fst (get_demo_status (frozen_clock now))) = ''moderate''"
    by (simp add: get_demo_status_def split_def Let_def)
  have hf': "fst (assess_hf_radio_risk (recent_flares (fst (get_demo_status (frozen_clock now))))
          (snd (get_demo_status (frozen_clock now)))) = ''minor''"
    by (simp add: get_demo_status_def split_def Let_def assess_hf_radio_risk_def utcnow_def
        frozen_clock_def datetime_sub_def timedelta_of_microseconds_def hours_def)
  have summ: "summary (fst (get_demo_status w)) \<noteq>
     generate_status_summary (kp_current (fst (get_demo_status w)))
       (recent_flares (fst (get_demo_status w))) (active_cmes (fst (get_demo_status w))) g h s"
    unfolding st by (rule demo_summary_unreachable[THEN not_sym])
  have pc: "map commentary (fst (get_demo_passes w)) =
     [Some ''High pass, very good viewing. Standard duration (360s).'',
      Some ''Good pass, should be easy to spot. Standard duration (300s).'']"
    by (simp add: get_demo_passes_def split_def Let_def)
  have pe: "map (\<lambda>p. generate_commentary (with_geometry p pd) (is_worth_watching (with_geometry p pd)))
       (fst (get_demo_passes w)) =
     [''High pass, very good viewing. Long pass (360s).'',
      ''Good pass, should be easy to spot. Standard duration (300s).'']"
    by (simp add: get_demo_passes_def split_def Let_def with_geometry_def is_worth_watching_def
        generate_commentary_def str_int_def str_nat.simps)
  show ?thesis
    unfolding st(1,2) gps aur using st(3,4) hf hf' summ pc pe unfolding st(1,2) by blast
qed

end
